theory Spec2Isabelle
  imports
    Complex_Main
    "HOL-Library.Char_ord"
    "HOL-Library.List_Lexorder"
    "HOL-Library.Product_Lexorder"
    "HOL-Library.AList"
begin

section \<open>Monthly energy statistics: fetch, persist, derive\<close>

text \<open>
  A shallow embedding of \<^verbatim>\<open>get_monthly_data.py\<close> (class
  \<^verbatim>\<open>MonthlyEnergyDataFetcher\<close>) and of \<^verbatim>\<open>calculate_ratios\<close> in
  \<^verbatim>\<open>analyse_monthly_data.py\<close>.

  Conventions of the model.
  \<^item> Python exceptions are values of \<open>py_error\<close>; a function that can raise returns
    \<open>py_error + 'a\<close>.
  \<^item> The wall clock (\<^verbatim>\<open>datetime.now()\<close>) and the remote API are parameters.
  \<^item> float64 magnitudes are rationals; \<^verbatim>\<open>round(x, 2)\<close> is rounding to a multiple
    of 1/100, ties to even. \<^verbatim>\<open>None\<close>/NaN is \<open>None\<close> of an option type.
  \<^item> Printing is not modelled.
\<close>

datatype py_error =
    IllegalMonthError int
  | OverflowError
  | IndexError
  | KeyError
  | IntegrityError

subsection \<open>Period resolution: \<^verbatim>\<open>calculate_month_dates\<close>\<close>

record date =
  d_year :: int
  d_month :: int
  d_day :: int

text \<open>\<^verbatim>\<open>calendar.isleap\<close> and \<^verbatim>\<open>calendar.mdays\<close>.\<close>

definition isleap :: "int \<Rightarrow> bool" where
  "isleap y \<longleftrightarrow> y mod 4 = 0 \<and> (y mod 100 \<noteq> 0 \<or> y mod 400 = 0)"

definition mdays :: "int \<Rightarrow> int" where
  "mdays m =
     (if m = 2 then 28
      else if m = 4 \<or> m = 6 \<or> m = 9 \<or> m = 11 then 30
      else 31)"

text \<open>
  \<^verbatim>\<open>calendar.monthrange(year, month)[1]\<close>: the number of days of the month; raises
  \<^verbatim>\<open>IllegalMonthError\<close> unless \<^verbatim>\<open>1 <= month <= 12\<close>.
\<close>

definition monthrange_days :: "int \<Rightarrow> int \<Rightarrow> py_error + int" where
  "monthrange_days y m =
     (if \<not> (1 \<le> m \<and> m \<le> 12) then Inl (IllegalMonthError m)
      else Inr (mdays m + (if m = 2 \<and> isleap y then 1 else 0)))"

text \<open>
  \<^verbatim>\<open>today.replace(day=1) - timedelta(days=1)\<close>: the last day of the month before; January
  of year 1 has none (\<^verbatim>\<open>datetime.min\<close>), the subtraction overflows.
\<close>

definition last_day_previous_month :: "date \<Rightarrow> py_error + date" where
  "last_day_previous_month today =
     (if d_month today = 1 then
        (if d_year today \<le> 1 then Inl OverflowError
         else Inr \<lparr>d_year = d_year today - 1, d_month = 12, d_day = 31\<rparr>)
      else
        Inr \<lparr>d_year = d_year today, d_month = d_month today - 1,
             d_day = mdays (d_month today - 1)
                     + (if d_month today - 1 = 2 \<and> isleap (d_year today) then 1 else 0)\<rparr>)"

text \<open>Decimal formatting \<^verbatim>\<open>f"{n:04d}"\<close>, \<^verbatim>\<open>f"{n:02d}"\<close>: sign first, then zero padding.\<close>

definition digit_char :: "nat \<Rightarrow> char" where
  "digit_char d = ''0123456789'' ! d"

fun nat_digits :: "nat \<Rightarrow> string" where
  "nat_digits n = (if n < 10 then [digit_char n] else nat_digits (n div 10) @ [digit_char (n mod 10)])"

declare nat_digits.simps [simp del]

definition fmt_0d :: "nat \<Rightarrow> int \<Rightarrow> string" where
  "fmt_0d w n =
     (let ds = nat_digits (nat \<bar>n\<bar>);
          sgn = (if n < 0 then ''-'' else '''')
      in sgn @ replicate (w - length sgn - length ds) CHR ''0'' @ ds)"

definition iso_date :: "int \<Rightarrow> int \<Rightarrow> int \<Rightarrow> string" where
  "iso_date y m d = fmt_0d 4 y @ ''-'' @ fmt_0d 2 m @ ''-'' @ fmt_0d 2 d"

text \<open>
  \<^verbatim>\<open>calculate_month_dates(year, month)\<close>: both arguments optional; returns
  \<^verbatim>\<open>(start_date, end_date, year, month)\<close>.
\<close>

definition calculate_month_dates ::
  "date \<Rightarrow> int option \<Rightarrow> int option \<Rightarrow> py_error + (string \<times> string \<times> int \<times> int)" where
  "calculate_month_dates today year month =
     (case (case month of
              None \<Rightarrow>
                (case last_day_previous_month today of
                   Inl e \<Rightarrow> Inl e
                 | Inr prev \<Rightarrow>
                     Inr (if d_month prev = 12 \<and> year = None then Some (d_year today - 1) else year,
                          d_month prev))
            | Some m \<Rightarrow> Inr (year, m)) of
        Inl e \<Rightarrow> Inl e
      | Inr (year1, m) \<Rightarrow>
          (let y = (case year1 of None \<Rightarrow> d_year today | Some y \<Rightarrow> y) in
           case monthrange_days y m of
             Inl e \<Rightarrow> Inl e
           | Inr last_day \<Rightarrow> Inr (iso_date y m 1, iso_date y m last_day, y, m)))"

text \<open>A date the clock can show: a month from 1 to 12, a year of \<^verbatim>\<open>datetime\<close>'s range.\<close>

definition clock_date :: "date \<Rightarrow> bool" where
  "clock_date t \<longleftrightarrow> 1 \<le> d_year t \<and> d_year t \<le> 9999 \<and> 1 \<le> d_month t \<and> d_month t \<le> 12"

text \<open>The month before a month of the calendar.\<close>

definition preceding_month :: "int \<Rightarrow> int" where
  "preceding_month m = (if m = 1 then 12 else m - 1)"

subsection \<open>The catalog of OBIS codes: \<^verbatim>\<open>__init__\<close>\<close>

text \<open>An entry of \<^verbatim>\<open>config['obiscode']\<close>: code, category label, description.\<close>

type_synonym obis_info = "string \<times> string \<times> string"

record config =
  obiscode :: "obis_info list"
  consumers_names :: "string list"
  consumers_smartmeters :: "string list"
  producers_names :: "string list"
  producers_smartmeters :: "string list"

text \<open>\<^verbatim>\<open>s.split(':')\<close>.\<close>

fun split_colon :: "string \<Rightarrow> string list" where
  "split_colon [] = [[]]"
| "split_colon (c # cs) =
     (if c = CHR '':'' then [] # split_colon cs
      else (case split_colon cs of
              [] \<Rightarrow> [[c]]
            | w # ws \<Rightarrow> (c # w) # ws))"

text \<open>\<^verbatim>\<open>obis_code.split(':')[1][0]\<close>; either index may be out of range.\<close>

definition first_digit :: "string \<Rightarrow> py_error + char" where
  "first_digit obis_code =
     (case split_colon obis_code of
        _ # seg # _ \<Rightarrow> (case seg of [] \<Rightarrow> Inl IndexError | c # _ \<Rightarrow> Inr c)
      | _ \<Rightarrow> Inl IndexError)"

text \<open>
  The loop over \<^verbatim>\<open>config['obiscode']\<close>, with the two lists it appends to. An entry
  whose digit is neither 1 nor 2 goes to neither list.
\<close>

fun separate_codes ::
  "obis_info list \<Rightarrow> obis_info list \<Rightarrow> obis_info list \<Rightarrow>
     py_error + (obis_info list \<times> obis_info list)" where
  "separate_codes [] cc pc = Inr (cc, pc)"
| "separate_codes (obis_info # rest) cc pc =
     (case first_digit (fst obis_info) of
        Inl e \<Rightarrow> Inl e
      | Inr d \<Rightarrow>
          if d = CHR ''1'' then separate_codes rest (cc @ [obis_info]) pc
          else if d = CHR ''2'' then separate_codes rest cc (pc @ [obis_info])
          else separate_codes rest cc pc)"

text \<open>
  The fetcher after \<^verbatim>\<open>__init__\<close>: the configuration and the two lists of codes. (The
  request headers and \<^verbatim>\<open>init_database\<close>, which creates the two tables when they are
  missing, are left out.)
\<close>

record fetcher =
  conf :: config
  consumption_codes :: "obis_info list"
  production_codes :: "obis_info list"

definition init :: "config \<Rightarrow> py_error + fetcher" where
  "init c =
     (case separate_codes (obiscode c) [] [] of
        Inl e \<Rightarrow> Inl e
      | Inr (cc, pc) \<Rightarrow> Inr \<lparr>conf = c, consumption_codes = cc, production_codes = pc\<rparr>)"

text \<open>The two categories, and the character right after the first colon of a code.\<close>

datatype category = Consumption | Production

definition char_after_first_colon :: "string \<Rightarrow> char option" where
  "char_after_first_colon s =
     (case dropWhile (\<lambda>c. c \<noteq> CHR '':'') s of
        _ # c # _ \<Rightarrow> Some c
      | _ \<Rightarrow> None)"

text \<open>The list an accepted entry was put on.\<close>

definition classify :: "fetcher \<Rightarrow> obis_info \<Rightarrow> category option" where
  "classify f obis_info =
     (if obis_info \<in> set (consumption_codes f) then Some Consumption
      else if obis_info \<in> set (production_codes f) then Some Production
      else None)"

subsection \<open>One call of the metering API: \<^verbatim>\<open>fetch_metering_data\<close>\<close>

text \<open>
  The JSON payload of the API, typed as its interface describes it: an object with an
  optional list of points and an optional unit. A key that is missing and a key whose
  value is \<^verbatim>\<open>null\<close> both read as \<open>None\<close>, as \<^verbatim>\<open>dict.get\<close> does. A body that is
  JSON of another shape has no value of this type.
\<close>

record point =
  pt_value :: "rat option"
  pt_startedAt :: "string option"
  pt_endedAt :: "string option"
  pt_calculated :: "bool option"
  pt_type :: "string option"

record payload =
  aggregatedTimeSeries :: "point list option"
  pl_unit :: "string option"

datatype body = InvalidJSON | Payload payload

text \<open>What \<^verbatim>\<open>requests.get\<close> does: it raises, or returns a status code and a body.\<close>

datatype http_result = Timeout | RequestException | Response int body

text \<open>The remote API: meter, code, start date, end date.\<close>

type_synonym api = "string \<Rightarrow> string \<Rightarrow> string \<Rightarrow> string \<Rightarrow> http_result"

definition fetch_metering_data ::
  "api \<Rightarrow> string \<Rightarrow> string \<Rightarrow> string \<Rightarrow> string \<Rightarrow> payload option" where
  "fetch_metering_data net meter_id obis_code start_date end_date =
     (case net meter_id obis_code start_date end_date of
        Timeout \<Rightarrow> None
      | RequestException \<Rightarrow> None
      | Response status_code b \<Rightarrow>
          if status_code = 404 then None
          else if status_code \<noteq> 200 then None
          else (case b of
                  InvalidJSON \<Rightarrow> None
                | Payload data \<Rightarrow>
                    (case aggregatedTimeSeries data of
                       Some (ts # _) \<Rightarrow> Some data
                     | _ \<Rightarrow> None)))"

subsection \<open>The long-form record set: \<^verbatim>\<open>fetch_all_data\<close>\<close>

record row =
  r_year :: int
  r_month :: int
  r_start_date :: string
  r_end_date :: string
  r_entity_type :: string
  r_entity_name :: string
  r_meter_id :: string
  r_obis_code :: string
  r_obis_category :: string
  r_obis_description :: string
  r_value :: "rat option"
  r_unit :: "string option"
  r_started_at :: "string option"
  r_ended_at :: "string option"
  r_calculated :: "bool option"
  r_type :: "string option"
  r_data_available :: bool

text \<open>The body of the inner loop: one call, one row.\<close>

fun fetch_row ::
  "api \<Rightarrow> string \<times> string \<times> int \<times> int \<Rightarrow> string \<Rightarrow> string \<Rightarrow> string \<Rightarrow> obis_info \<Rightarrow> row" where
  "fetch_row net (start_date, end_date, calc_year, calc_month) entity_type name meter_id
     (obis_code, obis_category, obis_description) =
     (let data = fetch_metering_data net meter_id obis_code start_date end_date;
          r = \<lparr>r_year = calc_year, r_month = calc_month,
               r_start_date = start_date, r_end_date = end_date,
               r_entity_type = entity_type, r_entity_name = name, r_meter_id = meter_id,
               r_obis_code = obis_code, r_obis_category = obis_category,
               r_obis_description = obis_description,
               r_value = None, r_unit = None, r_started_at = None, r_ended_at = None,
               r_calculated = None, r_type = None, r_data_available = False\<rparr>
      in (case data of
            None \<Rightarrow> r
          | Some d \<Rightarrow>
              (case aggregatedTimeSeries d of
                 Some (ts # _) \<Rightarrow>
                   (r\<lparr>r_value := pt_value ts, r_started_at := pt_startedAt ts,
                      r_ended_at := pt_endedAt ts, r_calculated := pt_calculated ts,
                      r_type := pt_type ts, r_unit := pl_unit d, r_data_available := True\<rparr>)
               | _ \<Rightarrow> r)))"

declare fetch_row.simps [simp del]

text \<open>The inner loop over the codes and the outer loop over the zipped roster.\<close>

primrec fetch_codes ::
  "api \<Rightarrow> string \<times> string \<times> int \<times> int \<Rightarrow> string \<Rightarrow> string \<Rightarrow> string \<Rightarrow> obis_info list \<Rightarrow> row list" where
  "fetch_codes net period entity_type name meter_id [] = []"
| "fetch_codes net period entity_type name meter_id (obis_info # rest) =
     fetch_row net period entity_type name meter_id obis_info
       # fetch_codes net period entity_type name meter_id rest"

primrec fetch_entities ::
  "api \<Rightarrow> string \<times> string \<times> int \<times> int \<Rightarrow> string \<Rightarrow> obis_info list \<Rightarrow> (string \<times> string) list \<Rightarrow> row list" where
  "fetch_entities net period entity_type codes [] = []"
| "fetch_entities net period entity_type codes (e # rest) =
     fetch_codes net period entity_type (fst e) (snd e) codes
       @ fetch_entities net period entity_type codes rest"


subsection \<open>Rounding to two decimals\<close>

text \<open>Rounding to the nearest integer, ties to the even one.\<close>

definition round_half_even :: "rat \<Rightarrow> int" where
  "round_half_even x =
     (let f = \<lfloor>x\<rfloor>; d = x - of_int f
      in if d < 1 / 2 then f
         else if 1 / 2 < d then f + 1
         else if even f then f else f + 1)"

definition round2 :: "rat \<Rightarrow> rat" where
  "round2 x = of_int (round_half_even (x * 100)) / 100"

subsection \<open>The relational store: \<^verbatim>\<open>save_to_database\<close>\<close>

text \<open>
  The two tables, with the columns the \<^verbatim>\<open>INSERT\<close> statements write. The columns
  \<^verbatim>\<open>id\<close> and \<^verbatim>\<open>created_at\<close>, which SQLite fills in by itself, are not part of the
  model. A column declared \<^verbatim>\<open>NOT NULL\<close> has a type without \<open>None\<close>.
\<close>

record metering_data =
  md_year :: int
  md_month :: int
  md_entity_type :: string
  md_entity_name :: string
  md_meter_id :: string
  md_obis_code :: string
  md_obis_category :: string
  md_obis_description :: string
  md_value :: rat
  md_unit :: "string option"
  md_started_at :: "string option"
  md_ended_at :: "string option"
  md_calculated :: "bool option"
  md_type :: "string option"

record monthly_summaries =
  ms_year :: int
  ms_month :: int
  ms_obis_code :: string
  ms_obis_category :: string
  ms_obis_description :: string
  ms_total_value :: rat
  ms_num_meters :: nat
  ms_unit :: "string option"

record store =
  metering_data_table :: "metering_data list"
  monthly_summaries_table :: "monthly_summaries list"

text \<open>How a call ends: it returns, or it raises.\<close>

datatype outcome = Returned | Raised py_error

text \<open>\<^verbatim>\<open>df[df['data_available'] == True]\<close> with the \<^verbatim>\<open>value\<close> column rounded.\<close>

definition with_data :: "row list \<Rightarrow> row list" where
  "with_data df = map (\<lambda>r. r\<lparr>r_value := map_option round2 (r_value r)\<rparr>) (filter r_data_available df)"

text \<open>\<^verbatim>\<open>DELETE FROM ... WHERE year = ? AND month = ?\<close> on either table.\<close>

definition delete_metering_data :: "int \<Rightarrow> int \<Rightarrow> metering_data list \<Rightarrow> metering_data list" where
  "delete_metering_data year month t = filter (\<lambda>d. \<not> (md_year d = year \<and> md_month d = month)) t"

definition delete_monthly_summaries ::
  "int \<Rightarrow> int \<Rightarrow> monthly_summaries list \<Rightarrow> monthly_summaries list" where
  "delete_monthly_summaries year month t =
     filter (\<lambda>d. \<not> (ms_year d = year \<and> ms_month d = month)) t"

text \<open>
  One \<^verbatim>\<open>INSERT INTO metering_data\<close>. The statement fails with an integrity error on a
  \<^verbatim>\<open>NULL\<close> value (\<^verbatim>\<open>value REAL NOT NULL\<close>) and on a row that repeats a stored
  \<^verbatim>\<open>(year, month, meter_id, obis_code)\<close> (the \<^verbatim>\<open>UNIQUE\<close> constraint).
\<close>

definition md_key :: "metering_data \<Rightarrow> int \<times> int \<times> string \<times> string" where
  "md_key d = (md_year d, md_month d, md_meter_id d, md_obis_code d)"

definition row_key :: "row \<Rightarrow> int \<times> int \<times> string \<times> string" where
  "row_key r = (r_year r, r_month r, r_meter_id r, r_obis_code r)"

definition to_metering_data :: "row \<Rightarrow> rat \<Rightarrow> metering_data" where
  "to_metering_data r v =
     \<lparr>md_year = r_year r, md_month = r_month r,
      md_entity_type = r_entity_type r, md_entity_name = r_entity_name r,
      md_meter_id = r_meter_id r, md_obis_code = r_obis_code r,
      md_obis_category = r_obis_category r, md_obis_description = r_obis_description r,
      md_value = v, md_unit = r_unit r,
      md_started_at = r_started_at r, md_ended_at = r_ended_at r,
      md_calculated = r_calculated r, md_type = r_type r\<rparr>"

definition insert_metering_data :: "metering_data list \<Rightarrow> row \<Rightarrow> py_error + metering_data list" where
  "insert_metering_data t r =
     (case r_value r of
        None \<Rightarrow> Inl IntegrityError
      | Some v \<Rightarrow>
          if row_key r \<in> md_key ` set t then Inl IntegrityError
          else Inr (t @ [to_metering_data r v]))"

text \<open>The loop \<^verbatim>\<open>for _, row in df_with_data.iterrows()\<close>; the first failure ends it.\<close>

fun insert_all_metering_data :: "metering_data list \<Rightarrow> row list \<Rightarrow> py_error + metering_data list" where
  "insert_all_metering_data t [] = Inr t"
| "insert_all_metering_data t (r # rs) =
     (case insert_metering_data t r of
        Inl e \<Rightarrow> Inl e
      | Inr t' \<Rightarrow> insert_all_metering_data t' rs)"

text \<open>
  \<^verbatim>\<open>groupby(['obis_code', 'obis_category', 'obis_description']).agg(...)\<close>: the groups
  in the order of their keys; \<^verbatim>\<open>sum\<close> skips missing values, \<^verbatim>\<open>count\<close> counts the rows
  of the group whose \<^verbatim>\<open>entity_name\<close> is present (all of them: the type has no missing
  name), \<^verbatim>\<open>first\<close> is the first unit that is present.
\<close>

definition group_key :: "row \<Rightarrow> string \<times> string \<times> string" where
  "group_key r = (r_obis_code r, r_obis_category r, r_obis_description r)"

definition agg_sum :: "rat option list \<Rightarrow> rat" where
  "agg_sum vs = sum_list (map (\<lambda>v. case v of None \<Rightarrow> 0 | Some x \<Rightarrow> x) vs)"

definition agg_count :: "'a list \<Rightarrow> nat" where
  "agg_count xs = length xs"

fun agg_first :: "'a option list \<Rightarrow> 'a option" where
  "agg_first [] = None"
| "agg_first (None # xs) = agg_first xs"
| "agg_first (Some x # xs) = Some x"

record summary =
  sm_obis_code :: string
  sm_obis_category :: string
  sm_obis_description :: string
  sm_total_value :: rat
  sm_num_meters :: nat
  sm_unit :: "string option"

definition summarise :: "row list \<Rightarrow> string \<times> string \<times> string \<Rightarrow> summary" where
  "summarise df k =
     (let g = filter (\<lambda>r. group_key r = k) df
      in \<lparr>sm_obis_code = fst k, sm_obis_category = fst (snd k),
           sm_obis_description = snd (snd k),
           sm_total_value = agg_sum (map r_value g),
           sm_num_meters = agg_count (map r_entity_name g),
           sm_unit = agg_first (map r_unit g)\<rparr>)"

definition summaries :: "row list \<Rightarrow> summary list" where
  "summaries df = map (summarise df) (sort (remdups (map group_key df)))"

text \<open>
  One \<^verbatim>\<open>INSERT INTO monthly_summaries\<close>, under \<^verbatim>\<open>UNIQUE(year, month, obis_code)\<close>, and
  the loop over the summaries.
\<close>

definition ms_key :: "monthly_summaries \<Rightarrow> int \<times> int \<times> string" where
  "ms_key d = (ms_year d, ms_month d, ms_obis_code d)"

definition to_monthly_summaries :: "int \<Rightarrow> int \<Rightarrow> summary \<Rightarrow> monthly_summaries" where
  "to_monthly_summaries year month sm =
     \<lparr>ms_year = year, ms_month = month,
      ms_obis_code = sm_obis_code sm, ms_obis_category = sm_obis_category sm,
      ms_obis_description = sm_obis_description sm,
      ms_total_value = round2 (sm_total_value sm),
      ms_num_meters = sm_num_meters sm, ms_unit = sm_unit sm\<rparr>"

definition insert_monthly_summaries ::
  "int \<Rightarrow> int \<Rightarrow> monthly_summaries list \<Rightarrow> summary \<Rightarrow> py_error + monthly_summaries list" where
  "insert_monthly_summaries year month t sm =
     (if (year, month, sm_obis_code sm) \<in> ms_key ` set t then Inl IntegrityError
      else Inr (t @ [to_monthly_summaries year month sm]))"

fun insert_all_monthly_summaries ::
  "int \<Rightarrow> int \<Rightarrow> monthly_summaries list \<Rightarrow> summary list \<Rightarrow> py_error + monthly_summaries list" where
  "insert_all_monthly_summaries year month t [] = Inr t"
| "insert_all_monthly_summaries year month t (sm # sms) =
     (case insert_monthly_summaries year month t sm of
        Inl e \<Rightarrow> Inl e
      | Inr t' \<Rightarrow> insert_all_monthly_summaries year month t' sms)"

text \<open>
  \<^verbatim>\<open>save_to_database(df, year, month)\<close>: the store after the call and how the call
  ended. A data frame without rows has no column \<^verbatim>\<open>data_available\<close> (it was built from
  an empty list), so selecting it raises. Any exception rolls the transaction back, which
  leaves the store as it was, and is raised again.
\<close>

definition save_to_database :: "store \<Rightarrow> row list \<Rightarrow> int \<Rightarrow> int \<Rightarrow> store \<times> outcome" where
  "save_to_database db df year month =
     (if df = [] then (db, Raised KeyError)
      else
        let df_with_data = with_data df in
        if df_with_data = [] then (db, Returned)
        else
          case insert_all_metering_data
                 (delete_metering_data year month (metering_data_table db)) df_with_data of
            Inl e \<Rightarrow> (db, Raised e)
          | Inr md \<Rightarrow>
              (case insert_all_monthly_summaries year month
                      (delete_monthly_summaries year month (monthly_summaries_table db))
                      (summaries df_with_data) of
                 Inl e \<Rightarrow> (db, Raised e)
               | Inr ms \<Rightarrow>
                   (\<lparr>metering_data_table = md, monthly_summaries_table = ms\<rparr>, Returned)))"

subsection \<open>Ratios: \<^verbatim>\<open>calculate_ratios\<close>\<close>

text \<open>
  \<^verbatim>\<open>load_metering_data(year, month)\<close>: the rows of the period; every row when
  \<^verbatim>\<open>year and month\<close> is false, that is when either is 0.
\<close>

definition load_metering_data :: "store \<Rightarrow> int \<Rightarrow> int \<Rightarrow> metering_data list" where
  "load_metering_data db year month =
     (if year \<noteq> 0 \<and> month \<noteq> 0
      then filter (\<lambda>d. md_year d = year \<and> md_month d = month) (metering_data_table db)
      else metering_data_table db)"

text \<open>The abbreviated categories \<^verbatim>\<open>C\<close> and \<^verbatim>\<open>P\<close> are spelled out when either occurs.\<close>

definition map_category :: "metering_data list \<Rightarrow> metering_data list" where
  "map_category df =
     (if ''C'' \<in> md_obis_category ` set df \<or> ''P'' \<in> md_obis_category ` set df
      then map (\<lambda>d. d\<lparr>md_obis_category :=
                         (if md_obis_category d = ''C'' then ''Consumption''
                          else if md_obis_category d = ''P'' then ''Production''
                          else md_obis_category d)\<rparr>) df
      else df)"

definition sum_value :: "metering_data list \<Rightarrow> rat" where
  "sum_value df = sum_list (map md_value df)"

definition total_consumption :: "metering_data list \<Rightarrow> rat" where
  "total_consumption df = sum_value (filter (\<lambda>d. md_obis_category d = ''Consumption'') df)"

definition total_production :: "metering_data list \<Rightarrow> rat" where
  "total_production df = sum_value (filter (\<lambda>d. md_obis_category d = ''Production'') df)"

definition measured_consumption :: "metering_data list \<Rightarrow> rat" where
  "measured_consumption df = sum_value (filter (\<lambda>d. md_obis_code d = ''1-1:1.29.0'') df)"

definition energy_bought :: "metering_data list \<Rightarrow> rat" where
  "energy_bought df = sum_value (filter (\<lambda>d. md_obis_code d = ''1-65:1.29.9'') df)"

definition energy_shared_consumption :: "metering_data list \<Rightarrow> rat" where
  "energy_shared_consumption df =
     sum_value (filter (\<lambda>d. md_obis_code d \<in>
        set [''1-65:1.29.1'', ''1-65:1.29.2'', ''1-65:1.29.3'', ''1-65:1.29.4'']) df)"

definition measured_production :: "metering_data list \<Rightarrow> rat" where
  "measured_production df = sum_value (filter (\<lambda>d. md_obis_code d = ''1-1:2.29.0'') df)"

definition energy_shared_production :: "metering_data list \<Rightarrow> rat" where
  "energy_shared_production df =
     sum_value (filter (\<lambda>d. md_obis_code d \<in>
        set [''1-65:2.29.1'', ''1-65:2.29.2'', ''1-65:2.29.3'', ''1-65:2.29.4'']) df)"

definition energy_sold :: "metering_data list \<Rightarrow> rat" where
  "energy_sold df = sum_value (filter (\<lambda>d. md_obis_code d = ''1-65:2.29.9'') df)"

record ratios =
  rt_total_consumption :: rat
  rt_total_production :: rat
  rt_measured_consumption :: rat
  rt_measured_production :: rat
  rt_energy_bought :: rat
  rt_energy_shared_consumption :: rat
  rt_energy_shared_production :: rat
  rt_energy_sold :: rat
  production_to_consumption_ratio :: rat
  self_consumption_ratio :: rat
  self_sufficiency_ratio :: rat
  energy_bought_ratio :: rat
  energy_sold_ratio :: rat

text \<open>
  The dictionary built at the end of \<^verbatim>\<open>calculate_ratios\<close>, from the rows loaded.
\<close>

definition ratios_of :: "metering_data list \<Rightarrow> ratios" where
  "ratios_of df =
     \<lparr>rt_total_consumption = round2 (total_consumption df),
      rt_total_production = round2 (total_production df),
      rt_measured_consumption = round2 (measured_consumption df),
      rt_measured_production = round2 (measured_production df),
      rt_energy_bought = round2 (energy_bought df),
      rt_energy_shared_consumption = round2 (energy_shared_consumption df),
      rt_energy_shared_production = round2 (energy_shared_production df),
      rt_energy_sold = round2 (energy_sold df),
      production_to_consumption_ratio =
        (if total_consumption df > 0
         then round2 (total_production df / total_consumption df * 100) else 0),
      self_consumption_ratio =
        (if measured_consumption df > 0
         then round2 (energy_shared_consumption df / measured_consumption df * 100)
         else 0),
      self_sufficiency_ratio =
        (if measured_consumption df > 0
         then round2 ((measured_consumption df - energy_bought df)
                        / measured_consumption df * 100)
         else 0),
      energy_bought_ratio =
        (if measured_consumption df > 0
         then round2 (energy_bought df / measured_consumption df * 100) else 0),
      energy_sold_ratio =
        (if measured_production df > 0
         then round2 (energy_sold df / measured_production df * 100) else 0)\<rparr>"

text \<open>
  \<^verbatim>\<open>calculate_ratios(year, month)\<close>. The empty dictionary it returns for a period
  without rows is \<open>None\<close>.
\<close>

definition calculate_ratios :: "store \<Rightarrow> int \<Rightarrow> int \<Rightarrow> ratios option" where
  "calculate_ratios db year month =
     (let df = load_metering_data db year month in
      if df = [] then None else Some (ratios_of (map_category df)))"

subsection \<open>The wide format: \<^verbatim>\<open>create_wide_format_dataframe\<close>\<close>

text \<open>
  A cell of the wide data frame: an integer, a string, a float, or NaN (no value). A row
  is the list of its labelled cells, in the order of the columns.
\<close>

datatype cell = CInt int | CStr string | CNum rat | CNaN

record wide_df =
  wd_columns :: "string list"
  wd_rows :: "(string \<times> cell) list list"

text \<open>\<^verbatim>\<open>col.startswith(p)\<close> and \<^verbatim>\<open>p in col\<close>.\<close>

definition startswith :: "string \<Rightarrow> string \<Rightarrow> bool" where
  "startswith col p \<longleftrightarrow> take (length p) col = p"

fun contains :: "string \<Rightarrow> string \<Rightarrow> bool" where
  "contains [] p = (p = [])"
| "contains (c # cs) p = (startswith (c # cs) p \<or> contains cs p)"

text \<open>The value of a record as a cell: a missing value is NaN.\<close>

definition value_cell :: "rat option \<Rightarrow> cell" where
  "value_cell v = (case v of None \<Rightarrow> CNaN | Some x \<Rightarrow> CNum x)"

text \<open>
  The dictionary built for one group of \<^verbatim>\<open>groupby(['entity_type', 'entity_name',
  'meter_id'])\<close>: the identity fields, then \<^verbatim>\<open>row[obis_code] = value\<close> for each record of
  the group (a later record of the same code overwrites). A group has a first record.
\<close>

definition entity_key :: "row \<Rightarrow> string \<times> string \<times> string" where
  "entity_key r = (r_entity_type r, r_entity_name r, r_meter_id r)"

definition pivot_row :: "row list \<Rightarrow> string \<times> string \<times> string \<Rightarrow> (string \<times> cell) list" where
  "pivot_row df k =
     (let g = filter (\<lambda>r. entity_key r = k) df
      in fold (\<lambda>record row. AList.update (r_obis_code record) (value_cell (r_value record)) row) g
           [(''entity_type'', CStr (fst k)),
            (''name'', CStr (fst (snd k))),
            (''metering_point'', CStr (snd (snd k))),
            (''year'', (case g of [] \<Rightarrow> CNaN | r # _ \<Rightarrow> CInt (r_year r))),
            (''month'', (case g of [] \<Rightarrow> CNaN | r # _ \<Rightarrow> CInt (r_month r)))])"

definition pivot_data :: "row list \<Rightarrow> (string \<times> cell) list list" where
  "pivot_data df = map (pivot_row df) (sort (remdups (map entity_key df)))"

text \<open>
  The columns of \<^verbatim>\<open>pd.DataFrame(pivot_data)\<close>: the keys of the dictionaries, each once,
  in the order of their first appearance. A cell whose key a dictionary lacks is NaN.
\<close>

definition frame_columns :: "(string \<times> cell) list list \<Rightarrow> string list" where
  "frame_columns rows = rev (remdups (rev (concat (map (map fst) rows))))"

definition frame_cell :: "(string \<times> cell) list \<Rightarrow> string \<Rightarrow> cell" where
  "frame_cell row col = (case map_of row col of None \<Rightarrow> CNaN | Some v \<Rightarrow> v)"

text \<open>
  \<^verbatim>\<open>reindex(columns=new_cols, fill_value=0)\<close>: a column the frame has keeps its cells,
  the NaN ones too; \<^verbatim>\<open>fill_value\<close> fills only a column the frame did not have.
\<close>

definition reindex :: "string list \<Rightarrow> string list \<Rightarrow> (string \<times> cell) list \<Rightarrow> (string \<times> cell) list" where
  "reindex old_cols new_cols row =
     map (\<lambda>col. (col, if col \<in> set old_cols then frame_cell row col else CInt 0)) new_cols"

text \<open>\<^verbatim>\<open>wide_df[col].sum()\<close>: the sum of the numbers of a column; NaN is skipped.\<close>

definition column_sum :: "(string \<times> cell) list list \<Rightarrow> string \<Rightarrow> rat" where
  "column_sum rows col =
     sum_list (map (\<lambda>row. case frame_cell row col of CNum x \<Rightarrow> x | _ \<Rightarrow> 0) rows)"

text \<open>\<^verbatim>\<open>obis_descriptions\<close>: the dictionary from code to description; a later entry wins.\<close>

definition obis_descriptions :: "config \<Rightarrow> (string \<times> string) list" where
  "obis_descriptions c =
     fold (\<lambda>obis_info m. AList.update (fst obis_info) (snd (snd obis_info)) m) (obiscode c) []"

text \<open>A trailer row: \<^verbatim>\<open>pd.concat\<close> aligns it to the columns of the frame.\<close>

definition trailer_row :: "string \<Rightarrow> string list \<Rightarrow> (string \<Rightarrow> cell) \<Rightarrow> (string \<times> cell) list" where
  "trailer_row label code_cols f =
     [(''year'', CStr label), (''month'', CStr []), (''entity_type'', CStr []),
      (''name'', CStr []), (''metering_point'', CStr [])]
     @ map (\<lambda>col. (col, f col)) code_cols"

text \<open>
  \<^verbatim>\<open>create_wide_format_dataframe(df)\<close>. The empty frame has neither columns nor rows.
  (A code that contains both \<^verbatim>\<open>:1.\<close> and \<^verbatim>\<open>:2.\<close> would give a frame with a repeated
  label; the model reads such a column by its label.)
\<close>

definition create_wide_format_dataframe :: "config \<Rightarrow> row list \<Rightarrow> wide_df" where
  "create_wide_format_dataframe c df =
     (if df = [] \<or> \<not> (\<exists>r \<in> set df. r_data_available r)
      then \<lparr>wd_columns = [], wd_rows = []\<rparr>
      else
        let df_filtered = with_data df;
            rows = pivot_data df_filtered;
            cols = frame_columns rows;
            base_cols = [''year'', ''month'', ''entity_type'', ''name'', ''metering_point''];
            consumption_cols =
              sort (filter (\<lambda>col. startswith col ''1-'' \<and> contains col '':1.'') cols);
            production_cols =
              sort (filter (\<lambda>col. startswith col ''1-'' \<and> contains col '':2.'') cols);
            ordered_cols = base_cols @ consumption_cols @ production_cols;
            wide = map (reindex cols ordered_cols) rows;
            totals_row = trailer_row ''TOTAL'' (consumption_cols @ production_cols)
                           (\<lambda>col. CNum (round2 (column_sum wide col)));
            description_row = trailer_row ''DESCRIPTION'' (consumption_cols @ production_cols)
                           (\<lambda>col. case map_of (obis_descriptions c) col of
                                     None \<Rightarrow> CStr [] | Some d \<Rightarrow> CStr d)
        in \<lparr>wd_columns = ordered_cols,
             wd_rows = wide @ [totals_row] @ [description_row]\<rparr>)"

text \<open>The data rows of a wide frame: all but the two trailer rows.\<close>

definition data_rows :: "wide_df \<Rightarrow> (string \<times> cell) list list" where
  "data_rows w = take (length (wd_rows w) - 2) (wd_rows w)"


subsection \<open>Notions used to state the properties of the store\<close>

text \<open>The table rows that a list of records with values becomes.\<close>

definition stored_rows :: "row list \<Rightarrow> metering_data list" where
  "stored_rows rs = List.map_filter (\<lambda>r. map_option (to_metering_data r) (r_value r)) rs"

text \<open>
  When a list of records can be inserted into a table: every value is present, no two
  records share a key, and no key is in the table already.
\<close>

definition insertable :: "metering_data list \<Rightarrow> row list \<Rightarrow> bool" where
  "insertable t rs \<longleftrightarrow>
     (\<forall>r \<in> set rs. r_value r \<noteq> None) \<and> distinct (map row_key rs) \<and>
     row_key ` set rs \<inter> md_key ` set t = {}"

definition insertable_summaries :: "int \<Rightarrow> int \<Rightarrow> monthly_summaries list \<Rightarrow> summary list \<Rightarrow> bool" where
  "insertable_summaries year month t sms \<longleftrightarrow>
     distinct (map sm_obis_code sms) \<and>
     (\<lambda>sm. (year, month, sm_obis_code sm)) ` set sms \<inter> ms_key ` set t = {}"

text \<open>
  The number of distinct contributing entities of a group, counted by name: the distinct
  values of \<^verbatim>\<open>entity_name\<close> among the available records of the group.
\<close>

definition distinct_entities :: "row list \<Rightarrow> string \<times> string \<times> string \<Rightarrow> nat" where
  "distinct_entities df k =
     length (remdups (map r_entity_name
       (filter (\<lambda>r. r_data_available r \<and> group_key r = k) df)))"

subsection \<open>Example data\<close>

text \<open>
  A small configuration (two consumers, one producer, three codes), a clock, and an API
  that answers two of the calls with a reading, times out for the producer's meter and
  has nothing (404) for the rest.
\<close>

definition ex_config :: config where
  "ex_config =
     \<lparr>obiscode =
        [(''1-1:1.29.0'', ''Consumption'', ''Measured active consumption''),
         (''1-65:1.29.9'', ''Consumption'', ''Remaining consumption after sharing''),
         (''1-1:2.29.0'', ''Production'', ''Measured active production'')],
      consumers_names = [''A'', ''B''],
      consumers_smartmeters = [''m1'', ''m2''],
      producers_names = [''P''],
      producers_smartmeters = [''m3'']\<rparr>"

definition ex_fetcher :: fetcher where
  "ex_fetcher =
     \<lparr>conf = ex_config,
      consumption_codes =
        [(''1-1:1.29.0'', ''Consumption'', ''Measured active consumption''),
         (''1-65:1.29.9'', ''Consumption'', ''Remaining consumption after sharing'')],
      production_codes =
        [(''1-1:2.29.0'', ''Production'', ''Measured active production'')]\<rparr>"

definition ex_today :: date where
  "ex_today = \<lparr>d_year = 2024, d_month = 4, d_day = 15\<rparr>"







definition empty_store :: store where
  "empty_store = \<lparr>metering_data_table = [], monthly_summaries_table = []\<rparr>"

text \<open>An available record of March 2024 for a consumer, and the same record without data.\<close>

definition ex_row :: "string \<Rightarrow> string \<Rightarrow> string \<Rightarrow> rat \<Rightarrow> row" where
  "ex_row name meter_id obis_code v =
     \<lparr>r_year = 2024, r_month = 3, r_start_date = ''2024-03-01'', r_end_date = ''2024-03-31'',
      r_entity_type = ''consumer'', r_entity_name = name, r_meter_id = meter_id,
      r_obis_code = obis_code, r_obis_category = ''Consumption'',
      r_obis_description = ''Measured active consumption'',
      r_value = Some v, r_unit = Some ''kWh'',
      r_started_at = Some ''2024-03-01T00:00:00Z'', r_ended_at = Some ''2024-03-31T23:45:00Z'',
      r_calculated = Some False, r_type = Some ''ACTUAL'', r_data_available = True\<rparr>"

definition ex_unavailable :: "string \<Rightarrow> string \<Rightarrow> string \<Rightarrow> row" where
  "ex_unavailable name meter_id obis_code =
     (ex_row name meter_id obis_code 0)
       \<lparr>r_value := None, r_unit := None, r_started_at := None, r_ended_at := None,
        r_calculated := None, r_type := None, r_data_available := False\<rparr>"

text \<open>One entity name with two meters, both reporting the same code.\<close>

definition ex_two_meters :: "row list" where
  "ex_two_meters = [ex_row ''A'' ''m1'' ''1-1:1.29.0'' 50, ex_row ''A'' ''m2'' ''1-1:1.29.0'' 20]"

text \<open>Two meters that report different codes.\<close>

definition ex_two_codes :: "row list" where
  "ex_two_codes = [ex_row ''A'' ''m1'' ''1-1:1.29.0'' 50, ex_row ''B'' ''m2'' ''1-65:1.29.9'' 20]"

text \<open>A store that holds one record of March 2024 and its summary.\<close>

definition ex_stored :: metering_data where
  "ex_stored = to_metering_data (ex_row ''A'' ''m1'' ''1-1:1.29.0'' 50) 50"

definition ex_store :: store where
  "ex_store =
     \<lparr>metering_data_table = [ex_stored],
      monthly_summaries_table =
        [\<lparr>ms_year = 2024, ms_month = 3, ms_obis_code = ''1-1:1.29.0'',
          ms_obis_category = ''Consumption'',
          ms_obis_description = ''Measured active consumption'',
          ms_total_value = 50, ms_num_meters = 1, ms_unit = Some ''kWh''\<rparr>]\<rparr>"

text \<open>A store whose only record is energy bought: no measured consumption, no production.\<close>

definition ex_store_bought :: store where
  "ex_store_bought =
     \<lparr>metering_data_table = [to_metering_data (ex_row ''B'' ''m2'' ''1-65:1.29.9'' 20) 20],
      monthly_summaries_table = []\<rparr>"

text \<open>The store after the two records of \<open>ex_two_meters\<close> were saved into the empty one.\<close>

definition ex_store_two :: store where
  "ex_store_two =
     \<lparr>metering_data_table =
        [to_metering_data (ex_row ''A'' ''m1'' ''1-1:1.29.0'' 50) 50,
         to_metering_data (ex_row ''A'' ''m2'' ''1-1:1.29.0'' 20) 20],
      monthly_summaries_table =
        [\<lparr>ms_year = 2024, ms_month = 3, ms_obis_code = ''1-1:1.29.0'',
          ms_obis_category = ''Consumption'',
          ms_obis_description = ''Measured active consumption'',
          ms_total_value = 70, ms_num_meters = 2, ms_unit = Some ''kWh''\<rparr>]\<rparr>"

section \<open>Properties\<close>

subsection \<open>Period resolution\<close>


text \<open>
  Claim C9. A month that is supplied and lies outside 1 to 12 makes
  \<^verbatim>\<open>calculate_month_dates\<close> raise \<^verbatim>\<open>IllegalMonthError\<close> (from
  \<^verbatim>\<open>calendar.monthrange\<close>), whatever the year and the clock; no date range is returned.
\<close>

theorem invalid_month_fails:
  "\<not> (1 \<le> m \<and> m \<le> 12) \<Longrightarrow>
     calculate_month_dates today year (Some m) = Inl (IllegalMonthError m)"
  by (simp add: calculate_month_dates_def monthrange_days_def)

theorem invalid_month_fails_witness:
  "\<not> (1 \<le> (13::int) \<and> (13::int) \<le> 12) \<and>
   calculate_month_dates ex_today None (Some 13) = Inl (IllegalMonthError 13)"
  using invalid_month_fails [of 13 ex_today None] by simp

text \<open>
  Claim C6. With the month omitted, the resolved month is the one before the clock's
  month; the resolved year is the supplied year, or, when the year is omitted too, the
  clock's year minus one if the resolved month is December and the clock's year
  otherwise. With a month supplied and the year omitted, the year is the clock's year.
  (The clock shows a real date other than January of year 1, where the step back to the
  previous month overflows.)
\<close>

theorem omitted_month_is_previous_month:
  assumes "clock_date today" and "\<not> (d_year today = 1 \<and> d_month today = 1)"
  shows "(\<exists>s e. calculate_month_dates today year None =
            Inr (s, e,
                 (case year of
                    Some y \<Rightarrow> y
                  | None \<Rightarrow> if preceding_month (d_month today) = 12
                             then d_year today - 1 else d_year today),
                 preceding_month (d_month today))) \<and>
         (\<forall>m. 1 \<le> m \<and> m \<le> 12 \<longrightarrow>
            (\<exists>s e. calculate_month_dates today None (Some m) = Inr (s, e, d_year today, m)))"
  using assms
  by (auto simp: calculate_month_dates_def monthrange_days_def last_day_previous_month_def
        preceding_month_def clock_date_def Let_def split: option.splits)

theorem omitted_month_is_previous_month_witness:
  "clock_date \<lparr>d_year = 2026, d_month = 1, d_day = 15\<rparr> \<and>
   (\<exists>s e. calculate_month_dates \<lparr>d_year = 2026, d_month = 1, d_day = 15\<rparr> None None
            = Inr (s, e, 2025, 12)) \<and>
   (\<exists>s e. calculate_month_dates \<lparr>d_year = 2026, d_month = 1, d_day = 15\<rparr> None (Some 7)
            = Inr (s, e, 2026, 7))"
proof -
  have c: "clock_date \<lparr>d_year = 2026, d_month = 1, d_day = 15\<rparr>"
    by (simp add: clock_date_def)
  have n: "\<not> (d_year \<lparr>d_year = 2026, d_month = 1, d_day = 15\<rparr> = 1
             \<and> d_month \<lparr>d_year = 2026, d_month = 1, d_day = 15\<rparr> = 1)"
    by simp
  show ?thesis
    using c omitted_month_is_previous_month [OF c n, of None]
    by (simp add: preceding_month_def)
qed

subsection \<open>The catalog\<close>

lemma split_colon_unfold:
  "split_colon s =
     takeWhile (\<lambda>c. c \<noteq> CHR '':'') s
       # (case dropWhile (\<lambda>c. c \<noteq> CHR '':'') s of [] \<Rightarrow> [] | _ # rest \<Rightarrow> split_colon rest)"
  by (induction s) (auto split: list.splits)

lemma first_digit_iff:
  "first_digit s = Inr c \<longleftrightarrow> char_after_first_colon s = Some c \<and> c \<noteq> CHR '':''"
proof (cases "dropWhile (\<lambda>c. c \<noteq> CHR '':'') s")
  case Nil
  have "split_colon s = [takeWhile (\<lambda>c. c \<noteq> CHR '':'') s]"
    by (subst split_colon_unfold) (simp only: Nil list.case)
  then show ?thesis
    by (simp add: first_digit_def char_after_first_colon_def Nil del: dropWhile_eq_Nil_conv)
next
  case (Cons a rest)
  have s: "split_colon s = takeWhile (\<lambda>c. c \<noteq> CHR '':'') s # split_colon rest"
    by (subst split_colon_unfold) (simp only: Cons list.case)
  show ?thesis
  proof (cases rest)
    case Nil
    then show ?thesis
      by (simp add: first_digit_def char_after_first_colon_def Cons s)
  next
    case (Cons b rest')
    then show ?thesis
      by (auto simp: first_digit_def char_after_first_colon_def \<open>dropWhile _ s = a # rest\<close> s
          split: list.splits)
  qed
qed

lemma separate_codes_Inr:
  "separate_codes xs cc pc = Inr (cc', pc') \<Longrightarrow>
     cc' = cc @ filter (\<lambda>i. first_digit (fst i) = Inr CHR ''1'') xs \<and>
     pc' = pc @ filter (\<lambda>i. first_digit (fst i) = Inr CHR ''2'') xs"
  by (induction xs cc pc rule: separate_codes.induct) (auto split: sum.splits if_splits)

lemma separate_codes_succeeds:
  "(\<exists>r. separate_codes xs cc pc = Inr r) \<longleftrightarrow> (\<forall>i \<in> set xs. \<exists>d. first_digit (fst i) = Inr d)"
  by (induction xs cc pc rule: separate_codes.induct) (auto split: sum.splits if_splits)

lemma init_Inr:
  assumes "init c = Inr f"
  shows "consumption_codes f = filter (\<lambda>i. first_digit (fst i) = Inr CHR ''1'') (obiscode c)"
    and "production_codes f = filter (\<lambda>i. first_digit (fst i) = Inr CHR ''2'') (obiscode c)"
  using assms separate_codes_Inr [of "obiscode c" "[]" "[]"]
  by (auto simp: init_def split: sum.splits prod.splits)

lemma init_succeeds:
  "(\<exists>f. init c = Inr f) \<longleftrightarrow> (\<forall>i \<in> set (obiscode c). \<exists>d. first_digit (fst i) = Inr d)"
  using separate_codes_succeeds [of "obiscode c" "[]" "[]"]
  by (auto simp: init_def split: sum.splits prod.splits)

text \<open>
  Claim C8. When the catalog loads, an entry is classified if and only if it is an entry
  of the configuration whose code has the character 1 or 2 right after its first colon:
  1 gives Consumption, 2 gives Production, and nothing else is accepted. No entry is on
  both lists. The classification is the same for every configuration with the same
  entries, in whatever order (and however often) they are listed.
\<close>

theorem classification_by_digit_after_colon:
  assumes "init c = Inr f"
  shows "(\<forall>obis_info.
            classify f obis_info =
              (if obis_info \<in> set (obiscode c)
                  \<and> char_after_first_colon (fst obis_info) = Some CHR ''1'' then Some Consumption
               else if obis_info \<in> set (obiscode c)
                  \<and> char_after_first_colon (fst obis_info) = Some CHR ''2'' then Some Production
               else None)) \<and>
         set (consumption_codes f) \<inter> set (production_codes f) = {} \<and>
         (\<forall>c'. set (obiscode c') = set (obiscode c) \<longrightarrow>
            (\<exists>f'. init c' = Inr f' \<and> (\<forall>obis_info. classify f' obis_info = classify f obis_info)))"
proof (intro conjI allI impI)
  fix obis_info
  show "classify f obis_info =
              (if obis_info \<in> set (obiscode c)
                  \<and> char_after_first_colon (fst obis_info) = Some CHR ''1'' then Some Consumption
               else if obis_info \<in> set (obiscode c)
                  \<and> char_after_first_colon (fst obis_info) = Some CHR ''2'' then Some Production
               else None)"
    by (auto simp: classify_def init_Inr [OF assms] first_digit_iff)
next
  show "set (consumption_codes f) \<inter> set (production_codes f) = {}"
    by (auto simp: init_Inr [OF assms])
next
  fix c' :: config
  assume eq: "set (obiscode c') = set (obiscode c)"
  have "\<exists>f. init c = Inr f" using assms by blast
  then have "\<exists>f'. init c' = Inr f'"
    unfolding init_succeeds eq .
  then obtain f' where f': "init c' = Inr f'" ..
  have "\<forall>obis_info. classify f' obis_info = classify f obis_info"
    by (simp add: classify_def init_Inr [OF assms] init_Inr [OF f'] eq)
  with f' show "\<exists>f'. init c' = Inr f' \<and> (\<forall>obis_info. classify f' obis_info = classify f obis_info)"
    by blast
qed

theorem classification_by_digit_after_colon_witness:
  "init ex_config = Inr ex_fetcher \<and>
   classify ex_fetcher (''1-65:1.29.9'', ''Consumption'', ''Remaining consumption after sharing'')
     = Some Consumption \<and>
   classify ex_fetcher (''1-1:2.29.0'', ''Production'', ''Measured active production'')
     = Some Production \<and>
   (\<exists>f'. init (ex_config\<lparr>obiscode := rev (obiscode ex_config)\<rparr>) = Inr f' \<and>
      classify f' (''1-1:2.29.0'', ''Production'', ''Measured active production'')
        = Some Production)"
proof -
  have i: "init ex_config = Inr ex_fetcher"
    by (simp add: init_def ex_config_def ex_fetcher_def first_digit_def)
  have s: "set (obiscode (ex_config\<lparr>obiscode := rev (obiscode ex_config)\<rparr>)) = set (obiscode ex_config)"
    by simp
  from classification_by_digit_after_colon [OF i]
  have a: "\<forall>obis_info.
            classify ex_fetcher obis_info =
              (if obis_info \<in> set (obiscode ex_config)
                  \<and> char_after_first_colon (fst obis_info) = Some CHR ''1'' then Some Consumption
               else if obis_info \<in> set (obiscode ex_config)
                  \<and> char_after_first_colon (fst obis_info) = Some CHR ''2'' then Some Production
               else None)"
    and b: "\<forall>c'. set (obiscode c') = set (obiscode ex_config) \<longrightarrow>
            (\<exists>f'. init c' = Inr f' \<and> (\<forall>obis_info. classify f' obis_info = classify ex_fetcher obis_info))"
    by blast+
  have c1: "classify ex_fetcher (''1-65:1.29.9'', ''Consumption'', ''Remaining consumption after sharing'')
     = Some Consumption"
    by (subst a [rule_format]) (simp add: ex_config_def char_after_first_colon_def)
  have c2: "classify ex_fetcher (''1-1:2.29.0'', ''Production'', ''Measured active production'')
     = Some Production"
    by (subst a [rule_format]) (simp add: ex_config_def char_after_first_colon_def)
  from b [rule_format, OF s] c2 i c1 show ?thesis by metis
qed

subsection \<open>Fetching\<close>




lemma length_fetch_codes [simp]:
  "length (fetch_codes net period entity_type name meter_id codes) = length codes"
  by (induction codes) simp_all

lemma length_fetch_entities [simp]:
  "length (fetch_entities net period entity_type codes es) = length es * length codes"
  by (induction es) simp_all









subsection \<open>Ratios\<close>

text \<open>
  Claim C3, as the code has it. For a period that has rows, \<^verbatim>\<open>calculate_ratios\<close> returns
  a report in which each of the five ratios is 0 when its denominator is 0: the three
  ratios over the measured consumption, the ratio over the total consumption and the
  ratio over the measured production.
\<close>

theorem zero_denominator_gives_zero:
  assumes "load_metering_data db year month \<noteq> []"
  shows "\<exists>r. calculate_ratios db year month = Some r \<and>
           (total_consumption (map_category (load_metering_data db year month)) = 0
              \<longrightarrow> production_to_consumption_ratio r = 0) \<and>
           (measured_consumption (map_category (load_metering_data db year month)) = 0
              \<longrightarrow> self_consumption_ratio r = 0 \<and> self_sufficiency_ratio r = 0
                  \<and> energy_bought_ratio r = 0) \<and>
           (measured_production (map_category (load_metering_data db year month)) = 0
              \<longrightarrow> energy_sold_ratio r = 0)"
  using assms by (simp add: calculate_ratios_def ratios_of_def Let_def)

text \<open>
  Claim C3 as stated fails for the empty record set: the measured consumption is 0 there,
  yet the function returns the empty dictionary, which holds no ratio at all.
\<close>

theorem no_rows_no_ratios:
  "measured_consumption (map_category (load_metering_data empty_store 2024 3)) = 0 \<and>
   calculate_ratios empty_store 2024 3 = None"
  by (simp add: calculate_ratios_def load_metering_data_def empty_store_def map_category_def
      measured_consumption_def sum_value_def)

lemma ex_store_bought_load:
  "load_metering_data ex_store_bought 2024 3
     = [to_metering_data (ex_row ''B'' ''m2'' ''1-65:1.29.9'' 20) 20]"
  by (simp add: load_metering_data_def ex_store_bought_def to_metering_data_def ex_row_def)

theorem zero_denominator_gives_zero_witness:
  "load_metering_data ex_store_bought 2024 3 \<noteq> [] \<and>
   measured_consumption (map_category (load_metering_data ex_store_bought 2024 3)) = 0 \<and>
   measured_production (map_category (load_metering_data ex_store_bought 2024 3)) = 0 \<and>
   energy_bought (map_category (load_metering_data ex_store_bought 2024 3)) = 20 \<and>
   (\<exists>r. calculate_ratios ex_store_bought 2024 3 = Some r \<and>
      self_consumption_ratio r = 0 \<and> self_sufficiency_ratio r = 0 \<and>
      energy_bought_ratio r = 0 \<and> energy_sold_ratio r = 0)"
proof -
  have h: "load_metering_data ex_store_bought 2024 3 \<noteq> []"
    by (simp add: ex_store_bought_load)
  have z: "measured_consumption (map_category (load_metering_data ex_store_bought 2024 3)) = 0"
    "measured_production (map_category (load_metering_data ex_store_bought 2024 3)) = 0"
    "energy_bought (map_category (load_metering_data ex_store_bought 2024 3)) = 20"
    by (simp_all add: ex_store_bought_load map_category_def measured_consumption_def
        measured_production_def energy_bought_def sum_value_def to_metering_data_def ex_row_def)
  from zero_denominator_gives_zero [OF h] z h show ?thesis by blast
qed

subsection \<open>The store\<close>

lemma with_data_Nil: "(\<forall>r \<in> set df. \<not> r_data_available r) \<Longrightarrow> with_data df = []"
  by (simp add: with_data_def filter_empty_conv)

text \<open>
  Claim C10. When no record of the input is available, \<^verbatim>\<open>save_to_database\<close> leaves both
  tables exactly as they were: nothing is deleted, nothing is inserted. For a data frame
  that has rows the call returns early (for one without rows it raises, the store
  untouched all the same).
\<close>

theorem nothing_available_changes_nothing:
  assumes "\<forall>r \<in> set df. \<not> r_data_available r"
  shows "fst (save_to_database db df year month) = db \<and>
         (df \<noteq> [] \<longrightarrow> snd (save_to_database db df year month) = Returned)"
  using with_data_Nil [OF assms] by (simp add: save_to_database_def)

theorem nothing_available_changes_nothing_witness:
  "\<not> r_data_available (ex_unavailable ''A'' ''m1'' ''1-1:1.29.0'') \<and>
   save_to_database ex_store [ex_unavailable ''A'' ''m1'' ''1-1:1.29.0''] 2024 3
     = (ex_store, Returned) \<and>
   metering_data_table ex_store = [ex_stored] \<and> md_year ex_stored = 2024 \<and> md_month ex_stored = 3"
proof -
  have u: "\<not> r_data_available (ex_unavailable ''A'' ''m1'' ''1-1:1.29.0'')"
    by (simp add: ex_unavailable_def)
  then have h: "\<forall>r \<in> set [ex_unavailable ''A'' ''m1'' ''1-1:1.29.0'']. \<not> r_data_available r"
    by simp
  have "metering_data_table ex_store = [ex_stored] \<and> md_year ex_stored = 2024 \<and> md_month ex_stored = 3"
    by (simp add: ex_store_def ex_stored_def to_metering_data_def ex_row_def)
  with u nothing_available_changes_nothing [OF h, of ex_store 2024 3] show ?thesis
    by (simp add: prod_eq_iff)
qed

subsection \<open>The store: idempotence\<close>

lemma md_key_to_metering_data [simp]: "md_key (to_metering_data r v) = row_key r"
  by (simp add: md_key_def row_key_def to_metering_data_def)

lemma ms_key_to_monthly_summaries [simp]:
  "ms_key (to_monthly_summaries year month sm) = (year, month, sm_obis_code sm)"
  by (simp add: ms_key_def to_monthly_summaries_def)

lemma stored_rows_Nil [simp]: "stored_rows [] = []"
  by (simp add: stored_rows_def)

lemma stored_rows_Cons [simp]:
  "stored_rows (r # rs) =
     (case r_value r of None \<Rightarrow> stored_rows rs | Some v \<Rightarrow> to_metering_data r v # stored_rows rs)"
  by (simp add: stored_rows_def split: option.splits)

lemma insertable_Nil [simp]: "insertable t []"
  by (simp add: insertable_def)

lemma insertable_Cons:
  "insertable t (r # rs) \<longleftrightarrow>
     (\<exists>v. r_value r = Some v \<and> row_key r \<notin> md_key ` set t \<and>
          insertable (t @ [to_metering_data r v]) rs)"
  by (auto simp: insertable_def)

lemma insert_all_metering_data_eq:
  "insert_all_metering_data t rs =
     (if insertable t rs then Inr (t @ stored_rows rs) else Inl IntegrityError)"
proof (induction rs arbitrary: t)
  case Nil
  show ?case by simp
next
  case (Cons r rs)
  show ?case
  proof (cases "r_value r")
    case None
    then show ?thesis by (simp add: insert_metering_data_def insertable_Cons)
  next
    case (Some v)
    then show ?thesis
      by (simp add: insert_metering_data_def insertable_Cons Cons.IH)
  qed
qed

lemma insertable_summaries_Nil [simp]: "insertable_summaries year month t []"
  by (simp add: insertable_summaries_def)

lemma insertable_summaries_Cons:
  "insertable_summaries year month t (sm # sms) \<longleftrightarrow>
     (year, month, sm_obis_code sm) \<notin> ms_key ` set t \<and>
     insertable_summaries year month (t @ [to_monthly_summaries year month sm]) sms"
  by (auto simp: insertable_summaries_def)

lemma insert_all_monthly_summaries_eq:
  "insert_all_monthly_summaries year month t sms =
     (if insertable_summaries year month t sms
      then Inr (t @ map (to_monthly_summaries year month) sms) else Inl IntegrityError)"
  by (induction sms arbitrary: t)
    (simp_all add: insert_monthly_summaries_def insertable_summaries_Cons)

lemma save_to_database_eq:
  "save_to_database db df year month =
     (if df = [] then (db, Raised KeyError)
      else if with_data df = [] then (db, Returned)
      else if insertable (delete_metering_data year month (metering_data_table db)) (with_data df)
            \<and> insertable_summaries year month
                (delete_monthly_summaries year month (monthly_summaries_table db))
                (summaries (with_data df))
      then (\<lparr>metering_data_table =
               delete_metering_data year month (metering_data_table db)
                 @ stored_rows (with_data df),
             monthly_summaries_table =
               delete_monthly_summaries year month (monthly_summaries_table db)
                 @ map (to_monthly_summaries year month) (summaries (with_data df))\<rparr>, Returned)
      else (db, Raised IntegrityError))"
  by (simp add: save_to_database_def Let_def insert_all_metering_data_eq
      insert_all_monthly_summaries_eq)









text \<open>The example: two records saved into the empty store, then saved again.\<close>

lemma round2_of_int [simp]: "round2 (of_int n) = of_int n"
  by (simp add: round2_def round_half_even_def Let_def)

lemma round2_50 [simp]: "round2 50 = 50" and round2_20 [simp]: "round2 20 = 20"
  and round2_70 [simp]: "round2 70 = 70"
  using round2_of_int [of 50] round2_of_int [of 20] round2_of_int [of 70] by simp_all

lemma with_data_two: "with_data ex_two_meters = ex_two_meters"
  by (simp add: with_data_def ex_two_meters_def ex_row_def)

lemma summaries_two:
  "summaries ex_two_meters =
     [\<lparr>sm_obis_code = ''1-1:1.29.0'', sm_obis_category = ''Consumption'',
       sm_obis_description = ''Measured active consumption'',
       sm_total_value = 70, sm_num_meters = 2, sm_unit = Some ''kWh''\<rparr>]"
  by (simp add: summaries_def summarise_def ex_two_meters_def ex_row_def group_key_def
      agg_sum_def agg_count_def Let_def)

lemma ex_two_meters_not_Nil: "ex_two_meters \<noteq> []"
  by (simp add: ex_two_meters_def)

lemma insert_two_meters:
  "insert_all_metering_data [] ex_two_meters = Inr (metering_data_table ex_store_two)"
  by (simp add: ex_two_meters_def ex_store_two_def insert_metering_data_def row_key_def
      md_key_def ex_row_def to_metering_data_def)

lemma insert_two_summaries:
  "insert_all_monthly_summaries 2024 3 [] (summaries ex_two_meters)
     = Inr (monthly_summaries_table ex_store_two)"
  by (simp add: summaries_two ex_store_two_def insert_monthly_summaries_def
      to_monthly_summaries_def ms_key_def)

lemma save_two_meters:
  "save_to_database empty_store ex_two_meters 2024 3 = (ex_store_two, Returned)"
  by (simp add: save_to_database_def Let_def with_data_two ex_two_meters_not_Nil
      empty_store_def delete_metering_data_def delete_monthly_summaries_def
      insert_two_meters insert_two_summaries)

lemma delete_ex_store_two:
  "delete_metering_data 2024 3 (metering_data_table ex_store_two) = []"
  "delete_monthly_summaries 2024 3 (monthly_summaries_table ex_store_two) = []"
  by (simp_all add: delete_metering_data_def delete_monthly_summaries_def ex_store_two_def
      to_metering_data_def ex_row_def)

lemma save_two_meters_again:
  "save_to_database ex_store_two ex_two_meters 2024 3 = (ex_store_two, Returned)"
  by (simp add: save_to_database_def Let_def with_data_two ex_two_meters_not_Nil
      delete_ex_store_two insert_two_meters insert_two_summaries)


subsection \<open>The store: summaries\<close>

lemma group_key_with_data:
  "filter (\<lambda>r. group_key r = k) (with_data df)
     = map (\<lambda>r. r\<lparr>r_value := map_option round2 (r_value r)\<rparr>)
         (filter (\<lambda>r. r_data_available r \<and> group_key r = k) df)"
  by (induction df) (auto simp: with_data_def group_key_def)

lemma summarise_fields:
  "sm_obis_code (summarise W k) = fst k"
  "sm_obis_category (summarise W k) = fst (snd k)"
  "sm_obis_description (summarise W k) = snd (snd k)"
  "sm_num_meters (summarise W k) = length (filter (\<lambda>r. group_key r = k) W)"
  by (simp_all add: summarise_def agg_count_def Let_def)

lemma new_summary_row:
  assumes "ms \<in> set (delete_monthly_summaries year month t
                        @ map (to_monthly_summaries year month) (summaries W))"
    and "ms_year ms = year \<and> ms_month ms = month"
  shows "ms_num_meters ms =
           length (filter (\<lambda>r. group_key r
                      = (ms_obis_code ms, ms_obis_category ms, ms_obis_description ms)) W)"
proof -
  from assms have "ms \<in> set (map (to_monthly_summaries year month) (summaries W))"
    by (auto simp: delete_monthly_summaries_def)
  then obtain k where "ms = to_monthly_summaries year month (summarise W k)"
    by (auto simp: summaries_def)
  then show ?thesis
    by (simp add: to_monthly_summaries_def summarise_fields)
qed

lemma distinct_meters_in_group:
  assumes "distinct (map row_key W)"
    and "\<forall>r \<in> set W. r_year r = year \<and> r_month r = month"
  shows "distinct (map r_meter_id (filter (\<lambda>r. group_key r = k) W))"
proof -
  let ?g = "filter (\<lambda>r. group_key r = k) W"
  have "distinct (map row_key ?g)"
    using assms(1) by (rule distinct_map_filter)
  moreover have "map row_key ?g = map (\<lambda>x. (year, month, x, fst k)) (map r_meter_id ?g)"
    using assms(2) by (auto simp: row_key_def group_key_def)
  ultimately show ?thesis
    by (simp add: distinct_map del: map_map)
qed

text \<open>
  Claim C4, as the code has it. After an upsert that stored something, the
  \<^verbatim>\<open>num_meters\<close> of every summary row of the period is the number of available records of
  its group (the aggregation is \<^verbatim>\<open>count\<close>, the raw number of rows). When all available
  records carry the period of the upsert, the uniqueness constraint on the detail table
  makes that the number of distinct meters of the group.
\<close>

theorem num_meters_counts_rows:
  assumes "save_to_database db df year month = (db', Returned)"
    and "\<exists>r \<in> set df. r_data_available r"
  shows "\<forall>ms \<in> set (monthly_summaries_table db').
           ms_year ms = year \<and> ms_month ms = month \<longrightarrow>
             ms_num_meters ms =
               length (filter (\<lambda>r. r_data_available r \<and> group_key r
                          = (ms_obis_code ms, ms_obis_category ms, ms_obis_description ms)) df)
             \<and> ((\<forall>r \<in> set df. r_data_available r \<longrightarrow> r_year r = year \<and> r_month r = month)
                  \<longrightarrow> ms_num_meters ms =
                        card (r_meter_id ` {r \<in> set df. r_data_available r \<and> group_key r
                          = (ms_obis_code ms, ms_obis_category ms, ms_obis_description ms)}))"
proof (intro ballI impI)
  fix ms
  assume ms: "ms \<in> set (monthly_summaries_table db')"
    and period: "ms_year ms = year \<and> ms_month ms = month"
  let ?k = "(ms_obis_code ms, ms_obis_category ms, ms_obis_description ms)"
  let ?W = "with_data df"
  from assms(2) have ne: "df \<noteq> []" "?W \<noteq> []"
    by (auto simp: with_data_def filter_empty_conv)
  with assms(1) have ins: "insertable (delete_metering_data year month (metering_data_table db)) ?W"
    and tbl: "monthly_summaries_table db' =
                delete_monthly_summaries year month (monthly_summaries_table db)
                  @ map (to_monthly_summaries year month) (summaries ?W)"
    by (auto simp: save_to_database_eq split: if_splits)
  have count: "ms_num_meters ms = length (filter (\<lambda>r. group_key r = ?k) ?W)"
    using ms period unfolding tbl by (rule new_summary_row)
  then have rows: "ms_num_meters ms = length (filter (\<lambda>r. r_data_available r \<and> group_key r = ?k) df)"
    by (simp add: group_key_with_data)
  have meters: "ms_num_meters ms = card (r_meter_id ` {r \<in> set df. r_data_available r \<and> group_key r = ?k})"
    if one: "\<forall>r \<in> set df. r_data_available r \<longrightarrow> r_year r = year \<and> r_month r = month"
  proof -
    from one have "\<forall>r \<in> set ?W. r_year r = year \<and> r_month r = month"
      by (auto simp: with_data_def)
    moreover from ins have "distinct (map row_key ?W)"
      by (simp add: insertable_def)
    ultimately have "distinct (map r_meter_id (filter (\<lambda>r. group_key r = ?k) ?W))"
      by (rule distinct_meters_in_group [rotated])
    then have "card (set (map r_meter_id (filter (\<lambda>r. group_key r = ?k) ?W)))
                 = length (filter (\<lambda>r. group_key r = ?k) ?W)"
      by (simp add: distinct_card del: set_map)
    moreover have "set (map r_meter_id (filter (\<lambda>r. group_key r = ?k) ?W))
                     = r_meter_id ` {r \<in> set df. r_data_available r \<and> group_key r = ?k}"
      by (auto simp: group_key_with_data image_iff)
    ultimately show ?thesis using count by simp
  qed
  from rows meters
  show "ms_num_meters ms =
               length (filter (\<lambda>r. r_data_available r \<and> group_key r = ?k) df)
             \<and> ((\<forall>r \<in> set df. r_data_available r \<longrightarrow> r_year r = year \<and> r_month r = month)
                  \<longrightarrow> ms_num_meters ms =
                        card (r_meter_id ` {r \<in> set df. r_data_available r \<and> group_key r = ?k}))"
    by blast
qed

theorem num_meters_counts_rows_witness:
  "save_to_database empty_store ex_two_meters 2024 3 = (ex_store_two, Returned) \<and>
   (\<exists>r \<in> set ex_two_meters. r_data_available r) \<and>
   map ms_num_meters (monthly_summaries_table ex_store_two) = [2] \<and>
   length (filter r_data_available ex_two_meters) = 2"
proof -
  have b: "\<exists>r \<in> set ex_two_meters. r_data_available r"
    by (simp add: ex_two_meters_def ex_row_def)
  from num_meters_counts_rows [OF save_two_meters b] save_two_meters b
  show ?thesis
    by (simp add: ex_store_two_def ex_two_meters_def ex_row_def group_key_def)
qed

text \<open>
  Claim C4 as stated fails: one entity name with two meters gives a summary whose
  \<^verbatim>\<open>num_meters\<close> is 2, the number of rows, while the group has one distinct entity.
\<close>

theorem num_meters_is_not_distinct_entities:
  "map ms_num_meters
     (monthly_summaries_table (fst (save_to_database empty_store ex_two_meters 2024 3))) = [2] \<and>
   distinct_entities ex_two_meters
     (''1-1:1.29.0'', ''Consumption'', ''Measured active consumption'') = 1"
  unfolding save_two_meters
  by (simp add: ex_store_two_def distinct_entities_def ex_two_meters_def ex_row_def
      group_key_def)

subsection \<open>The wide format\<close>

text \<open>
  Claim C5 fails on the code. Two meters report different codes: the frame built from the
  dictionaries has NaN where a meter lacks a code, and \<^verbatim>\<open>reindex(columns=ordered_cols,
  fill_value=0)\<close> keeps it, since every code column exists already (the comment in the
  source says the call fills NaN with 0). The data rows therefore hold NaN, not 0, for a
  missing code. The TOTAL row holds the sums of the columns over the data rows.
\<close>

theorem wide_format_keeps_NaN:
  "create_wide_format_dataframe ex_config ex_two_codes =
     \<lparr>wd_columns =
        [''year'', ''month'', ''entity_type'', ''name'', ''metering_point'',
         ''1-1:1.29.0'', ''1-65:1.29.9''],
      wd_rows =
        [[(''year'', CInt 2024), (''month'', CInt 3), (''entity_type'', CStr ''consumer''),
          (''name'', CStr ''A''), (''metering_point'', CStr ''m1''),
          (''1-1:1.29.0'', CNum 50), (''1-65:1.29.9'', CNaN)],
         [(''year'', CInt 2024), (''month'', CInt 3), (''entity_type'', CStr ''consumer''),
          (''name'', CStr ''B''), (''metering_point'', CStr ''m2''),
          (''1-1:1.29.0'', CNaN), (''1-65:1.29.9'', CNum 20)],
         [(''year'', CStr ''TOTAL''), (''month'', CStr []), (''entity_type'', CStr []),
          (''name'', CStr []), (''metering_point'', CStr []),
          (''1-1:1.29.0'', CNum 50), (''1-65:1.29.9'', CNum 20)],
         [(''year'', CStr ''DESCRIPTION''), (''month'', CStr []), (''entity_type'', CStr []),
          (''name'', CStr []), (''metering_point'', CStr []),
          (''1-1:1.29.0'', CStr ''Measured active consumption''),
          (''1-65:1.29.9'', CStr ''Remaining consumption after sharing'')]]\<rparr> \<and>
   map (\<lambda>row. frame_cell row ''1-65:1.29.9'')
     (data_rows (create_wide_format_dataframe ex_config ex_two_codes)) = [CNaN, CNum 20] \<and>
   map (\<lambda>row. frame_cell row ''1-1:1.29.0'')
     (data_rows (create_wide_format_dataframe ex_config ex_two_codes)) = [CNum 50, CNaN]"
  by code_simp

end
